theory Spec2Isabelle
  imports Main "HOL-Library.Sublist" "HOL-Library.AList"
begin

section \<open>Python values and exceptions\<close>

text \<open>
  The two modules of PerfKitBenchmarker verified here are
  \<^verbatim>\<open>perfkitbenchmarker/placement_group.py\<close> and
  \<^verbatim>\<open>perfkitbenchmarker/providers/gcp/gce_windows_virtual_machine.py\<close>.
  Python strings are \<^typ>\<open>string\<close>, dictionaries are maps, a raised exception is the
  \<open>Inl\<close> branch of a sum, and every mutation is explicit state passing.
\<close>

datatype pyval = PyNone | PyStr string | PyBool bool | PyInt int | PyRef nat

datatype py_exception =
    IOError string
  | GceUnexpectedWindowsAdapterOutputError string
  | GceDriverDoesntSupportFeatureError string
  | AttributeError string
  | NotImplementedError string string
  | ConfigValidationError "string list"
  | OtherException string string

text \<open>
  \<open>IOError m\<close> stands for an instance of \<^verbatim>\<open>IOError\<close> or of one of its subclasses (what
  \<^verbatim>\<open>except IOError\<close> catches); \<open>OtherException cls m\<close> for an instance of any class
  \<open>cls\<close> outside that hierarchy, such as \<^verbatim>\<open>RemoteCommandError\<close>.
  \<open>NotImplementedError base cloud\<close> carries the base class and the cloud identifier of a
  failed lookup, \<open>ConfigValidationError names\<close> the full names of the invalid options.
\<close>

section \<open>gce\_windows\_virtual\_machine.py\<close>

subsection \<open>SupportGVNIC\<close>

text \<open>
  The constants of \<^verbatim>\<open>os_types\<close> that \<^verbatim>\<open>GVNIC_DISABLED_OS_TYPES\<close> reads. The module
  \<^verbatim>\<open>os_types\<close> is imported, so the values of its constants are parameters here.
\<close>

record os_types =
  WINDOWS2012_CORE :: string
  WINDOWS2012_DESKTOP :: string

text \<open>
  The attribute \<^verbatim>\<open>OS_TYPE\<close> as an instance reads it: one OS type name, or the list of
  names the class body assigns
  (\<^verbatim>\<open>OS_TYPE = os_types.WINDOWS_CORE_OS_TYPES + os_types.WINDOWS_DESKOP_OS_TYPES\<close>).
\<close>

datatype os_type_attr = OsName string | OsNames "string list"

record WindowsGceVirtualMachine =
  OS_TYPE :: os_type_attr
  disable_rss :: bool
  password :: "string option"

definition GVNIC_DISABLED_OS_TYPES :: "os_types \<Rightarrow> string list" where
  "GVNIC_DISABLED_OS_TYPES m = [WINDOWS2012_CORE m, WINDOWS2012_DESKTOP m]"

text \<open>Python's \<^verbatim>\<open>==\<close> between the attribute and a string: a list never equals a string.\<close>

fun os_type_eq :: "os_type_attr \<Rightarrow> string \<Rightarrow> bool" where
  "os_type_eq (OsName s) t = (s = t)"
| "os_type_eq (OsNames ss) t = False"

text \<open>Python's \<^verbatim>\<open>x in xs\<close> on a list: some element equals \<open>x\<close>.\<close>

fun py_in :: "os_type_attr \<Rightarrow> string list \<Rightarrow> bool" where
  "py_in x [] = False"
| "py_in x (y # ys) = (os_type_eq x y \<or> py_in x ys)"

text \<open>
  \<^verbatim>\<open>def SupportGVNIC(self) -> bool:
    return self.OS_TYPE not in self.GVNIC_DISABLED_OS_TYPES\<close>
  The method returns its result together with the instance it leaves behind.
\<close>

definition SupportGVNIC ::
  "os_types \<Rightarrow> 'a WindowsGceVirtualMachine_scheme \<Rightarrow> bool \<times> 'a WindowsGceVirtualMachine_scheme" where
  "SupportGVNIC m self = (\<not> py_in (OS_TYPE self) (GVNIC_DISABLED_OS_TYPES m), self)"

subsection \<open>DisableRSS\<close>

text \<open>
  \<^verbatim>\<open>self.RemoteCommand\<close> is inherited from \<^verbatim>\<open>BaseWindowsMixin\<close>; it is a parameter
  \<open>rc\<close> here: given the world (the VM object and the remote machine) and a command, it
  raises or returns \<open>(stdout, stderr)\<close>, and leaves a new world. A run records every
  command it has issued.
\<close>

type_synonym 'w remote_command = "'w \<Rightarrow> string \<Rightarrow> (py_exception + string \<times> string) \<times> 'w"

record 'w run =
  world :: 'w
  issued :: "string list"

definition RemoteCommand ::
  "'w remote_command \<Rightarrow> string \<Rightarrow> 'w run \<Rightarrow> (py_exception + string \<times> string) \<times> 'w run" where
  "RemoteCommand rc command s =
     (case rc (world s) command of
        (res, w) \<Rightarrow> (res, \<lparr>world = w, issued = issued s @ [command]\<rparr>))"

text \<open>Python's \<^verbatim>\<open>needle in haystack\<close> on strings: a contiguous substring.\<close>

fun str_contains :: "string \<Rightarrow> string \<Rightarrow> bool" where
  "str_contains needle [] = (needle = [])"
| "str_contains needle (c # cs) = (prefix needle (c # cs) \<or> str_contains needle cs)"

text \<open>
  The tail of \<^verbatim>\<open>DisableRSS\<close>, after the adapter restart:
  \<^verbatim>\<open>stdout, _ = self.RemoteCommand('netsh int tcp show global')
if 'Receive-Side Scaling State          : enabled' in stdout:
  raise GceUnexpectedWindowsAdapterOutputError('RSS failed to disable.')\<close>
\<close>

definition DisableRSS_verify :: "'w remote_command \<Rightarrow> 'w run \<Rightarrow> (py_exception + unit) \<times> 'w run" where
  "DisableRSS_verify rc s =
     (case RemoteCommand rc ''netsh int tcp show global'' s of
        (Inl e, s') \<Rightarrow> (Inl e, s')
      | (Inr (stdout, _), s') \<Rightarrow>
          if str_contains ''Receive-Side Scaling State          : enabled'' stdout
          then (Inl (GceUnexpectedWindowsAdapterOutputError ''RSS failed to disable.''), s')
          else (Inr (), s'))"

text \<open>
  \<^verbatim>\<open>def DisableRSS(self):
  net_adapters, _ = self.RemoteCommand('Get-NetAdapter')
  if 'Red Hat VirtIO Ethernet Adapter' not in net_adapters:
    raise GceDriverDoesntSupportFeatureError(
        'Driver not tested with RSS disabled in PKB.')
  command = 'netsh int tcp set global rss=disabled'
  self.RemoteCommand(command)
  try:
    self.RemoteCommand('Restart-NetAdapter -Name "Ethernet"')
  except IOError:
    pass
  ...\<close>
  An exception of a remote command propagates, except an \<^verbatim>\<open>IOError\<close> of the restart.
\<close>

definition restart_command :: string where
  "restart_command = ''Restart-NetAdapter -Name '' @ [CHR 0x22] @ ''Ethernet'' @ [CHR 0x22]"

definition DisableRSS :: "'w remote_command \<Rightarrow> 'w run \<Rightarrow> (py_exception + unit) \<times> 'w run" where
  "DisableRSS rc s =
     (case RemoteCommand rc ''Get-NetAdapter'' s of
        (Inl e, s1) \<Rightarrow> (Inl e, s1)
      | (Inr (net_adapters, _), s1) \<Rightarrow>
          if \<not> str_contains ''Red Hat VirtIO Ethernet Adapter'' net_adapters
          then (Inl (GceDriverDoesntSupportFeatureError
                       ''Driver not tested with RSS disabled in PKB.''), s1)
          else
            (case RemoteCommand rc ''netsh int tcp set global rss=disabled'' s1 of
               (Inl e, s2) \<Rightarrow> (Inl e, s2)
             | (Inr _, s2) \<Rightarrow>
                 (case RemoteCommand rc restart_command s2 of
                    (Inl (IOError _), s3) \<Rightarrow> DisableRSS_verify rc s3
                  | (Inl e, s3) \<Rightarrow> (Inl e, s3)
                  | (Inr _, s3) \<Rightarrow> DisableRSS_verify rc s3)))"

text \<open>
  A simulated Windows guest for concrete runs: the world is whether receive-side
  scaling is enabled; the guest has the adapter named by \<open>adapter\<close>, and the restart
  breaks the connection.
\<close>

definition guest :: "string \<Rightarrow> bool \<Rightarrow> bool remote_command" where
  "guest adapter sticky rss command =
     (if command = ''Get-NetAdapter'' then (Inr (''Ethernet  '' @ adapter @ ''  Up'', []), rss)
      else if command = ''netsh int tcp set global rss=disabled''
      then (Inr (''Ok.'', []), sticky \<and> rss)
      else if command = restart_command then (Inl (IOError ''connection reset''), rss)
      else if command = ''netsh int tcp show global''
      then (Inr (''Receive-Side Scaling State          : ''
                   @ (if rss then ''enabled'' else ''disabled''), []), rss)
      else (Inl (OtherException ''RemoteCommandError'' command), rss))"

section \<open>placement\_group.py\<close>

subsection \<open>The flag and \_ApplyFlags\<close>

text \<open>
  \<^verbatim>\<open>flags.DEFINE_string('placement_group_style', None, ...)\<close>: the flag's value is
  \<^verbatim>\<open>None\<close> or a string, and \<open>flag_present\<close> counts how often the command line set it.
  \<open>FlagValues\<close> is a flag-values object as far as this module reads it.
\<close>

record string_flag =
  flag_value :: "string option"
  flag_present :: nat

record FlagValues =
  placement_group_style :: string_flag

type_synonym config = "string \<rightharpoonup> pyval"

text \<open>
  \<^verbatim>\<open>super(BasePlacementGroupSpec, cls)._ApplyFlags(config_values, flag_values)
if FLAGS.placement_group_style:
  config_values['placement_group_style'] = FLAGS.placement_group_style\<close>
  \<open>super_ApplyFlags\<close> is the parent's method (of \<^verbatim>\<open>spec.BaseSpec\<close>), a parameter: it
  raises or returns the dictionary as it left it. \<open>FLAGS\<close> is the module's global
  \<^verbatim>\<open>flags.FLAGS\<close>, \<open>flag_values\<close> the method's argument, of any type: the method only
  hands it to the parent. The \<^verbatim>\<open>if\<close> tests Python truth: \<^verbatim>\<open>None\<close> and the empty string
  are false.
\<close>

definition BasePlacementGroupSpec_ApplyFlags ::
  "(config \<Rightarrow> 'f \<Rightarrow> py_exception + config) \<Rightarrow> 'a FlagValues_scheme \<Rightarrow> config \<Rightarrow> 'f
     \<Rightarrow> py_exception + config" where
  "BasePlacementGroupSpec_ApplyFlags super_ApplyFlags FLAGS config_values flag_values =
     (case super_ApplyFlags config_values flag_values of
        Inl e \<Rightarrow> Inl e
      | Inr cv \<Rightarrow>
          (case flag_value (placement_group_style FLAGS) of
             None \<Rightarrow> Inr cv
           | Some style \<Rightarrow>
               if style \<noteq> [] then Inr (cv(''placement_group_style'' \<mapsto> PyStr style))
               else Inr cv))"

text \<open>
  The spec's wording of the method, for comparison: the parent implementation runs
  first, then the subclass's override is layered on top of what the parent left.
\<close>

definition placement_group_style_override :: "'a FlagValues_scheme \<Rightarrow> config \<Rightarrow> config" where
  "placement_group_style_override FLAGS cv =
     (case flag_value (placement_group_style FLAGS) of
        Some (c # cs) \<Rightarrow> cv(''placement_group_style'' \<mapsto> PyStr (c # cs))
      | _ \<Rightarrow> cv)"

definition ApplyFlags_cooperative ::
  "(config \<Rightarrow> 'f \<Rightarrow> py_exception + config) \<Rightarrow> 'a FlagValues_scheme \<Rightarrow> config \<Rightarrow> 'f
     \<Rightarrow> py_exception + config" where
  "ApplyFlags_cooperative parent FLAGS config_values flag_values =
     (case parent config_values flag_values of
        Inl e \<Rightarrow> Inl e
      | Inr base_result \<Rightarrow> Inr (placement_group_style_override FLAGS base_result))"

text \<open>
  A parent that changes nothing, one that raises and one that writes an entry, for
  concrete runs.
\<close>

definition ApplyFlags_unchanged :: "config \<Rightarrow> 'f \<Rightarrow> py_exception + config" where
  "ApplyFlags_unchanged config_values flag_values = Inr config_values"

definition ApplyFlags_raising :: "py_exception \<Rightarrow> config \<Rightarrow> 'f \<Rightarrow> py_exception + config" where
  "ApplyFlags_raising e config_values flag_values = Inl e"

definition ApplyFlags_writing :: "string \<Rightarrow> pyval \<Rightarrow> config \<Rightarrow> 'f \<Rightarrow> py_exception + config" where
  "ApplyFlags_writing k v config_values flag_values = Inr (config_values(k \<mapsto> v))"

subsection \<open>\_GetOptionDecoderConstructions\<close>

text \<open>
  A decoder construction is a pair of a decoder class and the keyword arguments of its
  constructor. Dictionaries that are iterated are association lists with distinct
  keys, in insertion order; \<^const>\<open>AList.update\<close> is Python's item assignment (an existing
  key keeps its place, a new key goes last).
\<close>

datatype decoder_class = StringDecoder | OtherDecoder string

type_synonym decoder_construction = "decoder_class \<times> (string \<times> pyval) list"

text \<open>\<^verbatim>\<open>d.update(other)\<close>: every item of \<open>other\<close> is assigned, in order.\<close>

fun dict_update :: "('k \<times> 'v) list \<Rightarrow> ('k \<times> 'v) list \<Rightarrow> ('k \<times> 'v) list" where
  "dict_update d [] = d"
| "dict_update d ((k, v) # other) = dict_update (AList.update k v d) other"

text \<open>
  \<^verbatim>\<open>result = super(BasePlacementGroupSpec, cls)._GetOptionDecoderConstructions()
result.update({'zone': (option_decoders.StringDecoder, {'none_ok': True})})
return result\<close>
  \<open>super_result\<close> is what the parent's method returns.
\<close>

definition BasePlacementGroupSpec_GetOptionDecoderConstructions ::
  "(string \<times> decoder_construction) list \<Rightarrow> (string \<times> decoder_construction) list" where
  "BasePlacementGroupSpec_GetOptionDecoderConstructions super_result =
     dict_update super_result [(''zone'', (StringDecoder, [(''none_ok'', PyBool True)]))]"

subsection \<open>The class registry\<close>

text \<open>
  A class as the registry sees it: its name, the type tag of the base it derives from
  (\<^verbatim>\<open>SPEC_TYPE = 'BasePlacementGroupSpec'\<close>, \<^verbatim>\<open>RESOURCE_TYPE = 'BasePlacementGroup'\<close>)
  and its \<^verbatim>\<open>CLOUD\<close> class constant (\<^verbatim>\<open>None\<close> in the two base classes).
\<close>

record py_class =
  class_name :: string
  base_type :: string
  CLOUD :: "string option"

text \<open>
  Modelled from the spec: \<^verbatim>\<open>spec.GetSpecClass\<close> and \<^verbatim>\<open>resource.GetResourceClass\<close>, whose
  modules are not among the sources. The spec's registry maps (base-class identity,
  cloud identifier) to the concrete subclass; it indexes all currently defined
  subclasses of the base class by their cloud constant, and a lookup with no match fails
  with a NotImplementedError-class error carrying the base class and the cloud
  identifier. \<open>classes\<close> are the classes defined so far.
\<close>

definition registry_entries :: "py_class list \<Rightarrow> ((string \<times> string) \<times> py_class) list" where
  "registry_entries classes =
     concat (map (\<lambda>c. case CLOUD c of None \<Rightarrow> [] | Some cloud \<Rightarrow> [((base_type c, cloud), c)])
       classes)"

definition Resolve :: "py_class list \<Rightarrow> string \<Rightarrow> string \<Rightarrow> py_exception + py_class" where
  "Resolve classes base cloud =
     (case map_of (registry_entries classes) (base, cloud) of
        None \<Rightarrow> Inl (NotImplementedError base cloud)
      | Some c \<Rightarrow> Inr c)"

text \<open>The spec's invariant: at most one class is registered per (base class, cloud) pair.\<close>

definition unique_registration :: "py_class list \<Rightarrow> bool" where
  "unique_registration classes = distinct (map fst (registry_entries classes))"

text \<open>
  \<^verbatim>\<open>def GetPlacementGroupSpecClass(cloud):
  return spec.GetSpecClass(BasePlacementGroupSpec, CLOUD=cloud)
def GetPlacementGroupClass(cloud):
  return resource.GetResourceClass(BasePlacementGroup, CLOUD=cloud)\<close>
\<close>

definition GetPlacementGroupSpecClass :: "py_class list \<Rightarrow> string \<Rightarrow> py_exception + py_class" where
  "GetPlacementGroupSpecClass spec_classes cloud =
     Resolve spec_classes ''BasePlacementGroupSpec'' cloud"

definition GetPlacementGroupClass :: "py_class list \<Rightarrow> string \<Rightarrow> py_exception + py_class" where
  "GetPlacementGroupClass resource_classes cloud =
     Resolve resource_classes ''BasePlacementGroup'' cloud"

definition example_classes :: "py_class list" where
  "example_classes =
     [\<lparr>class_name = ''BasePlacementGroup'', base_type = ''BasePlacementGroup'', CLOUD = None\<rparr>,
      \<lparr>class_name = ''GcePlacementGroup'', base_type = ''BasePlacementGroup'', CLOUD = Some ''GCP''\<rparr>,
      \<lparr>class_name = ''AwsPlacementGroup'', base_type = ''BasePlacementGroup'', CLOUD = Some ''AWS''\<rparr>,
      \<lparr>class_name = ''GcePlacementGroupSpec'', base_type = ''BasePlacementGroupSpec'',
        CLOUD = Some ''GCP''\<rparr>]"

subsection \<open>BasePlacementGroup\<close>

text \<open>
  Objects live in a store: an address holds an object's attribute dictionary, and a
  reference to an object is \<open>PyRef\<close> of its address.
\<close>

type_synonym obj = "string \<rightharpoonup> pyval"

type_synonym heap = "nat \<rightharpoonup> obj"

definition attrs :: "heap \<Rightarrow> nat \<Rightarrow> obj" where
  "attrs h a = (case h a of None \<Rightarrow> Map.empty | Some ob \<Rightarrow> ob)"

definition getattr :: "heap \<Rightarrow> nat \<Rightarrow> string \<Rightarrow> py_exception + pyval" where
  "getattr h a name =
     (case attrs h a name of None \<Rightarrow> Inl (AttributeError name) | Some v \<Rightarrow> Inr v)"

text \<open>
  \<^verbatim>\<open>def __init__(self, placement_group_spec):
  super(BasePlacementGroup, self).__init__()
  self.zone = placement_group_spec.zone\<close>
  \<open>super_init\<close> is \<^verbatim>\<open>resource.BaseResource.__init__\<close>, a parameter: called with \<open>self\<close>
  alone, it raises or returns the attributes it leaves on \<open>self\<close>.
\<close>

definition BasePlacementGroup_init ::
  "(obj \<Rightarrow> py_exception + obj) \<Rightarrow> heap \<Rightarrow> nat \<Rightarrow> nat \<Rightarrow> py_exception + heap" where
  "BasePlacementGroup_init super_init h self placement_group_spec =
     (case super_init (attrs h self) of
        Inl e \<Rightarrow> Inl e
      | Inr ob \<Rightarrow>
          (case getattr (h(self \<mapsto> ob)) placement_group_spec ''zone'' of
             Inl e \<Rightarrow> Inl e
           | Inr z \<Rightarrow> Inr (h(self \<mapsto> ob(''zone'' \<mapsto> z)))))"

text \<open>
  The call \<^verbatim>\<open>BasePlacementGroup(placement_group_spec)\<close>: a new object with no attributes
  at the address \<open>self\<close>, then \<^verbatim>\<open>__init__\<close>.
\<close>

definition BasePlacementGroup_new ::
  "(obj \<Rightarrow> py_exception + obj) \<Rightarrow> heap \<Rightarrow> nat \<Rightarrow> nat \<Rightarrow> py_exception + heap" where
  "BasePlacementGroup_new super_init h self placement_group_spec =
     BasePlacementGroup_init super_init (h(self \<mapsto> Map.empty)) self placement_group_spec"

text \<open>
  An instance of \<^verbatim>\<open>BasePlacementGroupSpec\<close>: its \<^verbatim>\<open>zone\<close> was decoded by a
  \<^verbatim>\<open>StringDecoder\<close> with \<^verbatim>\<open>none_ok=True\<close>, so it is a string or \<^verbatim>\<open>None\<close>.
\<close>

definition is_BasePlacementGroupSpec :: "obj \<Rightarrow> bool" where
  "is_BasePlacementGroupSpec s =
     (case s ''zone'' of Some PyNone \<Rightarrow> True | Some (PyStr z) \<Rightarrow> True | _ \<Rightarrow> False)"

text \<open>A parent initialiser that sets two lifecycle attributes, for concrete runs.\<close>

definition BaseResource_init_example :: "obj \<Rightarrow> py_exception + obj" where
  "BaseResource_init_example ob = Inr (ob(''created'' \<mapsto> PyBool False, ''deleted'' \<mapsto> PyBool False))"

subsection \<open>Decoding options and constructing a spec\<close>

text \<open>
  Modelled from the spec: \<^verbatim>\<open>option_decoders.StringDecoder.Decode\<close> and the construction
  of a spec in \<^verbatim>\<open>spec.BaseSpec\<close>, whose modules are not among the sources. The spec's
  decoder: the raw value may be absent (\<^verbatim>\<open>None\<close>) only if the decoder was constructed
  with \<^verbatim>\<open>none_ok=True\<close>, and then decodes to the none sentinel; otherwise absence fails
  with an error naming the option's full name; a value that is present and not of the
  decoder's type fails as well. \<open>other\<close> decodes for the decoder classes that
  \<^verbatim>\<open>placement_group.py\<close> does not name.
\<close>

definition none_ok :: "(string \<times> pyval) list \<Rightarrow> bool" where
  "none_ok kwargs = (map_of kwargs ''none_ok'' = Some (PyBool True))"

fun coerce :: "(string \<Rightarrow> pyval \<Rightarrow> pyval option) \<Rightarrow> decoder_class \<Rightarrow> pyval \<Rightarrow> pyval option" where
  "coerce other StringDecoder (PyStr s) = Some (PyStr s)"
| "coerce other StringDecoder v = None"
| "coerce other (OtherDecoder cls) v = other cls v"

fun Decode ::
  "(string \<Rightarrow> pyval \<Rightarrow> pyval option) \<Rightarrow> decoder_construction \<Rightarrow> pyval option \<Rightarrow> string
     \<Rightarrow> string + pyval" where
  "Decode other (cls, kwargs) None component_full_name =
     (if none_ok kwargs then Inr PyNone else Inl component_full_name)"
| "Decode other (cls, kwargs) (Some PyNone) component_full_name =
     (if none_ok kwargs then Inr PyNone else Inl component_full_name)"
| "Decode other (cls, kwargs) (Some v) component_full_name =
     (case coerce other cls v of None \<Rightarrow> Inl component_full_name | Some x \<Rightarrow> Inr x)"

text \<open>
  Modelled from the spec: steps 2 to 5 of \<^verbatim>\<open>Spec.FromConfig\<close>. The flags are applied,
  the decoder constructions are collected, every declared option is decoded from the
  (possibly overridden) configuration, all failures are collected, and the spec is
  either the error listing every invalid option or the decoded values bound as
  attributes. \<^verbatim>\<open>_ApplyFlags\<close> and \<^verbatim>\<open>_GetOptionDecoderConstructions\<close> are the methods of
  \<^verbatim>\<open>placement_group.py\<close> above.
\<close>

definition decode_options ::
  "(string \<Rightarrow> pyval \<Rightarrow> pyval option) \<Rightarrow> (string \<times> decoder_construction) list \<Rightarrow> config \<Rightarrow> string
     \<Rightarrow> (string \<times> (string + pyval)) list" where
  "decode_options other decoders cv component =
     map (\<lambda>(option, dc). (option, Decode other dc (cv option) (component @ ''.'' @ option)))
       decoders"

fun failures :: "(string \<times> (string + pyval)) list \<Rightarrow> string list" where
  "failures [] = []"
| "failures ((option, Inl name) # rs) = name # failures rs"
| "failures ((option, Inr v) # rs) = failures rs"

fun decoded :: "(string \<times> (string + pyval)) list \<Rightarrow> (string \<times> pyval) list" where
  "decoded [] = []"
| "decoded ((option, Inl name) # rs) = decoded rs"
| "decoded ((option, Inr v) # rs) = (option, v) # decoded rs"

definition FromConfig ::
  "(config \<Rightarrow> 'f \<Rightarrow> py_exception + config) \<Rightarrow> (string \<times> decoder_construction) list
     \<Rightarrow> (string \<Rightarrow> pyval \<Rightarrow> pyval option) \<Rightarrow> 'a FlagValues_scheme \<Rightarrow> string \<Rightarrow> config \<Rightarrow> 'f
     \<Rightarrow> py_exception + obj" where
  "FromConfig super_ApplyFlags super_decoders other FLAGS component config_values flag_values =
     (case BasePlacementGroupSpec_ApplyFlags super_ApplyFlags FLAGS config_values flag_values of
        Inl e \<Rightarrow> Inl e
      | Inr cv \<Rightarrow>
          (case decode_options other
                  (BasePlacementGroupSpec_GetOptionDecoderConstructions super_decoders)
                  cv component of
             results \<Rightarrow>
               if failures results \<noteq> [] then Inl (ConfigValidationError (failures results))
               else Inr (map_of (decoded results))))"

text \<open>A decoder for the other decoder classes that accepts nothing, for concrete runs.\<close>

definition decode_unknown :: "string \<Rightarrow> pyval \<Rightarrow> pyval option" where
  "decode_unknown cls v = None"

section \<open>Properties of gce\_windows\_virtual\_machine.py\<close>

lemma py_in_iff: "py_in x ys \<longleftrightarrow> (\<exists>s. x = OsName s \<and> s \<in> set ys)"
proof (induction ys)
  case Nil
  show ?case by simp
next
  case (Cons y ys)
  show ?case
  proof (cases x)
    case (OsName s)
    with Cons show ?thesis by auto
  next
    case (OsNames ss)
    with Cons show ?thesis by simp
  qed
qed

lemma str_contains_sublist: "str_contains needle hay \<longleftrightarrow> sublist needle hay"
  by (induction hay) (simp_all add: sublist_Cons_right)

text \<open>
  C8. \<^verbatim>\<open>SupportGVNIC\<close> returns \<open>False\<close> exactly when the instance's \<^verbatim>\<open>OS_TYPE\<close> is
  \<^verbatim>\<open>WINDOWS2012_CORE\<close> or \<^verbatim>\<open>WINDOWS2012_DESKTOP\<close>, \<open>True\<close> for every other value, and
  the instance is left as it was.
\<close>

theorem SupportGVNIC_exact:
  "(fst (SupportGVNIC m self) = False) =
     (OS_TYPE self = OsName (WINDOWS2012_CORE m) \<or> OS_TYPE self = OsName (WINDOWS2012_DESKTOP m))
   \<and> snd (SupportGVNIC m self) = self"
  by (auto simp: SupportGVNIC_def GVNIC_DISABLED_OS_TYPES_def py_in_iff)

lemma RemoteCommand_issued:
  "RemoteCommand rc c s = (res, s') \<Longrightarrow> issued s' = issued s @ [c]"
  by (auto simp: RemoteCommand_def split: prod.splits)

lemma DisableRSS_verify_result:
  assumes "RemoteCommand rc ''netsh int tcp show global'' s = (Inr (stdout, err), s')"
  shows "DisableRSS_verify rc s =
    (if sublist ''Receive-Side Scaling State          : enabled'' stdout
     then Inl (GceUnexpectedWindowsAdapterOutputError ''RSS failed to disable.'')
     else Inr (), s')"
  using assms by (simp add: DisableRSS_verify_def str_contains_sublist)

text \<open>
  C9. When \<^verbatim>\<open>Get-NetAdapter\<close> returns output without the substring
  \<^verbatim>\<open>Red Hat VirtIO Ethernet Adapter\<close>, \<^verbatim>\<open>DisableRSS\<close> raises
  \<^verbatim>\<open>GceDriverDoesntSupportFeatureError\<close> and the only command it has issued is that
  query. When the output has the substring, the disable command returns, the restart
  returns or raises an \<^verbatim>\<open>IOError\<close>, and \<^verbatim>\<open>netsh int tcp show global\<close> returns
  \<open>stdout\<close>, it raises \<^verbatim>\<open>GceUnexpectedWindowsAdapterOutputError\<close> exactly when \<open>stdout\<close>
  contains \<^verbatim>\<open>Receive-Side Scaling State          : enabled\<close>, and returns normally
  otherwise, having issued the four commands in order.
\<close>

theorem DisableRSS_errors:
  "(RemoteCommand rc ''Get-NetAdapter'' s = (Inr (net_adapters, err1), s1)
      \<and> \<not> sublist ''Red Hat VirtIO Ethernet Adapter'' net_adapters
    \<longrightarrow> DisableRSS rc s =
          (Inl (GceDriverDoesntSupportFeatureError
                  ''Driver not tested with RSS disabled in PKB.''), s1)
        \<and> issued s1 = issued s @ [''Get-NetAdapter''])
   \<and> (RemoteCommand rc ''Get-NetAdapter'' s = (Inr (net_adapters, err1), s1)
      \<and> sublist ''Red Hat VirtIO Ethernet Adapter'' net_adapters
      \<and> RemoteCommand rc ''netsh int tcp set global rss=disabled'' s1 = (Inr out2, s2)
      \<and> RemoteCommand rc restart_command s2 = (r3, s3)
      \<and> (case r3 of Inl (IOError msg) \<Rightarrow> True | Inl other \<Rightarrow> False | Inr out3 \<Rightarrow> True)
      \<and> RemoteCommand rc ''netsh int tcp show global'' s3 = (Inr (stdout, err4), s4)
    \<longrightarrow> DisableRSS rc s =
          (if sublist ''Receive-Side Scaling State          : enabled'' stdout
           then Inl (GceUnexpectedWindowsAdapterOutputError ''RSS failed to disable.'')
           else Inr (), s4)
        \<and> issued s4 = issued s @ [''Get-NetAdapter'', ''netsh int tcp set global rss=disabled'',
             restart_command, ''netsh int tcp show global''])"
proof (intro conjI impI)
  assume a: "RemoteCommand rc ''Get-NetAdapter'' s = (Inr (net_adapters, err1), s1)
      \<and> \<not> sublist ''Red Hat VirtIO Ethernet Adapter'' net_adapters"
  then show "DisableRSS rc s =
          (Inl (GceDriverDoesntSupportFeatureError
                  ''Driver not tested with RSS disabled in PKB.''), s1)"
    by (simp add: DisableRSS_def str_contains_sublist)
  from a show "issued s1 = issued s @ [''Get-NetAdapter'']"
    by (auto dest!: RemoteCommand_issued)
next
  assume a: "RemoteCommand rc ''Get-NetAdapter'' s = (Inr (net_adapters, err1), s1)
      \<and> sublist ''Red Hat VirtIO Ethernet Adapter'' net_adapters
      \<and> RemoteCommand rc ''netsh int tcp set global rss=disabled'' s1 = (Inr out2, s2)
      \<and> RemoteCommand rc restart_command s2 = (r3, s3)
      \<and> (case r3 of Inl (IOError msg) \<Rightarrow> True | Inl other \<Rightarrow> False | Inr out3 \<Rightarrow> True)
      \<and> RemoteCommand rc ''netsh int tcp show global'' s3 = (Inr (stdout, err4), s4)"
  then have v: "DisableRSS_verify rc s3 =
          (if sublist ''Receive-Side Scaling State          : enabled'' stdout
           then Inl (GceUnexpectedWindowsAdapterOutputError ''RSS failed to disable.'')
           else Inr (), s4)"
    using DisableRSS_verify_result by blast
  from a have "DisableRSS rc s = DisableRSS_verify rc s3"
    by (auto simp: DisableRSS_def str_contains_sublist split: sum.splits py_exception.splits)
  with v show "DisableRSS rc s =
          (if sublist ''Receive-Side Scaling State          : enabled'' stdout
           then Inl (GceUnexpectedWindowsAdapterOutputError ''RSS failed to disable.'')
           else Inr (), s4)" by simp
  from a show "issued s4 = issued s @ [''Get-NetAdapter'', ''netsh int tcp set global rss=disabled'',
             restart_command, ''netsh int tcp show global'']"
    by (auto dest!: RemoteCommand_issued)
qed


theorem DisableRSS_errors_witness:
  "DisableRSS (guest ''Intel 82574L'' False) \<lparr>world = True, issued = []\<rparr> =
     (Inl (GceDriverDoesntSupportFeatureError ''Driver not tested with RSS disabled in PKB.''),
      \<lparr>world = True, issued = [''Get-NetAdapter'']\<rparr>)
   \<and> DisableRSS (guest ''Red Hat VirtIO Ethernet Adapter'' True) \<lparr>world = True, issued = []\<rparr> =
     (Inl (GceUnexpectedWindowsAdapterOutputError ''RSS failed to disable.''),
      \<lparr>world = True, issued = [''Get-NetAdapter'', ''netsh int tcp set global rss=disabled'',
             restart_command, ''netsh int tcp show global'']\<rparr>)
   \<and> DisableRSS (guest ''Red Hat VirtIO Ethernet Adapter'' False) \<lparr>world = True, issued = []\<rparr> =
     (Inr (),
      \<lparr>world = False, issued = [''Get-NetAdapter'', ''netsh int tcp set global rss=disabled'',
             restart_command, ''netsh int tcp show global'']\<rparr>)"
proof -
  let ?s = "\<lparr>world = True, issued = []\<rparr>"
  let ?g1 = "[''Get-NetAdapter'']"
  let ?g2 = "[''Get-NetAdapter'', ''netsh int tcp set global rss=disabled'']"
  let ?g3 = "[''Get-NetAdapter'', ''netsh int tcp set global rss=disabled'', restart_command]"
  let ?g4 = "[''Get-NetAdapter'', ''netsh int tcp set global rss=disabled'', restart_command,
              ''netsh int tcp show global'']"
  have r: "restart_command \<noteq> ''Get-NetAdapter''"
    "restart_command \<noteq> ''netsh int tcp set global rss=disabled''"
    "restart_command \<noteq> ''netsh int tcp show global''"
    by (simp_all add: restart_command_def)
  have n1: "\<not> sublist ''Red Hat VirtIO Ethernet Adapter'' (''Ethernet  '' @ ''Intel 82574L'' @ ''  Up'')"
    by (simp add: str_contains_sublist [symmetric])
  have y1: "sublist ''Red Hat VirtIO Ethernet Adapter''
              (''Ethernet  '' @ ''Red Hat VirtIO Ethernet Adapter'' @ ''  Up'')"
    by (rule sublist_appendI)
  have e: "sublist ''Receive-Side Scaling State          : enabled''
             (''Receive-Side Scaling State          : '' @ ''enabled'')"
    by (simp add: str_contains_sublist [symmetric])
  have d: "\<not> sublist ''Receive-Side Scaling State          : enabled''
             (''Receive-Side Scaling State          : '' @ ''disabled'')"
    by (simp add: str_contains_sublist [symmetric])
  have a: "DisableRSS (guest ''Intel 82574L'' False) ?s =
     (Inl (GceDriverDoesntSupportFeatureError ''Driver not tested with RSS disabled in PKB.''),
      \<lparr>world = True, issued = ?g1\<rparr>)"
    using n1 DisableRSS_errors [where rc = "guest ''Intel 82574L'' False" and s = ?s
        and net_adapters = "''Ethernet  '' @ ''Intel 82574L'' @ ''  Up''" and ?err1.0 = "[]"
        and ?s1.0 = "\<lparr>world = True, issued = ?g1\<rparr>"]
    by (simp add: RemoteCommand_def guest_def)
  have b: "DisableRSS (guest ''Red Hat VirtIO Ethernet Adapter'' True) ?s =
     (Inl (GceUnexpectedWindowsAdapterOutputError ''RSS failed to disable.''),
      \<lparr>world = True, issued = ?g4\<rparr>)"
    using y1 e r DisableRSS_errors [where rc = "guest ''Red Hat VirtIO Ethernet Adapter'' True" and s = ?s
        and net_adapters = "''Ethernet  '' @ ''Red Hat VirtIO Ethernet Adapter'' @ ''  Up''"
        and ?err1.0 = "[]" and ?s1.0 = "\<lparr>world = True, issued = ?g1\<rparr>"
        and ?out2.0 = "(''Ok.'', [])" and ?s2.0 = "\<lparr>world = True, issued = ?g2\<rparr>"
        and ?r3.0 = "Inl (IOError ''connection reset'')" and ?s3.0 = "\<lparr>world = True, issued = ?g3\<rparr>"
        and stdout = "''Receive-Side Scaling State          : '' @ ''enabled''" and ?err4.0 = "[]"
        and ?s4.0 = "\<lparr>world = True, issued = ?g4\<rparr>"]
    by (simp add: RemoteCommand_def guest_def)
  have c: "DisableRSS (guest ''Red Hat VirtIO Ethernet Adapter'' False) ?s =
     (Inr (), \<lparr>world = False, issued = ?g4\<rparr>)"
    using y1 d r DisableRSS_errors [where rc = "guest ''Red Hat VirtIO Ethernet Adapter'' False" and s = ?s
        and net_adapters = "''Ethernet  '' @ ''Red Hat VirtIO Ethernet Adapter'' @ ''  Up''"
        and ?err1.0 = "[]" and ?s1.0 = "\<lparr>world = True, issued = ?g1\<rparr>"
        and ?out2.0 = "(''Ok.'', [])" and ?s2.0 = "\<lparr>world = False, issued = ?g2\<rparr>"
        and ?r3.0 = "Inl (IOError ''connection reset'')" and ?s3.0 = "\<lparr>world = False, issued = ?g3\<rparr>"
        and stdout = "''Receive-Side Scaling State          : '' @ ''disabled''" and ?err4.0 = "[]"
        and ?s4.0 = "\<lparr>world = False, issued = ?g4\<rparr>"]
    by (simp add: RemoteCommand_def guest_def)
  from a b c show ?thesis by blast
qed

section \<open>Properties of placement\_group.py\<close>

subsection \<open>\_ApplyFlags\<close>

lemma placement_group_style_override_eq:
  "placement_group_style_override FLAGS cv =
     (case flag_value (placement_group_style FLAGS) of
        None \<Rightarrow> cv
      | Some style \<Rightarrow> if style \<noteq> [] then cv(''placement_group_style'' \<mapsto> PyStr style) else cv)"
  by (simp add: placement_group_style_override_def split: option.splits list.splits)

text \<open>
  C2. \<^verbatim>\<open>_ApplyFlags\<close> is the parent's \<^verbatim>\<open>_ApplyFlags\<close> followed by the override of the
  \<^verbatim>\<open>placement_group_style\<close> entry: it computes what the cooperative composition of the
  spec computes; an exception of the parent propagates before any override; and when
  the parent returns, every entry it left other than \<^verbatim>\<open>placement_group_style\<close> is in the
  result, and that entry is the flag's value when that is a non-empty string, written
  over whatever the parent left, and the parent's otherwise.
\<close>

theorem ApplyFlags_parent_first:
  "BasePlacementGroupSpec_ApplyFlags parent FLAGS config_values flag_values =
     ApplyFlags_cooperative parent FLAGS config_values flag_values
   \<and> (\<forall>e. parent config_values flag_values = Inl e \<longrightarrow>
         BasePlacementGroupSpec_ApplyFlags parent FLAGS config_values flag_values = Inl e)
   \<and> (\<forall>cv. parent config_values flag_values = Inr cv \<longrightarrow>
         (\<exists>c. BasePlacementGroupSpec_ApplyFlags parent FLAGS config_values flag_values = Inr c
            \<and> (\<forall>k. k \<noteq> ''placement_group_style'' \<longrightarrow> c k = cv k)
            \<and> (\<forall>F. flag_value (placement_group_style FLAGS) = Some F \<and> F \<noteq> [] \<longrightarrow>
                  c ''placement_group_style'' = Some (PyStr F))
            \<and> (flag_value (placement_group_style FLAGS) = None
                  \<or> flag_value (placement_group_style FLAGS) = Some [] \<longrightarrow>
                  c ''placement_group_style'' = cv ''placement_group_style'')))"
proof (intro conjI allI impI)
  show "BasePlacementGroupSpec_ApplyFlags parent FLAGS config_values flag_values =
     ApplyFlags_cooperative parent FLAGS config_values flag_values"
    by (simp add: BasePlacementGroupSpec_ApplyFlags_def ApplyFlags_cooperative_def
        placement_group_style_override_eq split: sum.splits option.splits)
next
  fix e assume "parent config_values flag_values = Inl e"
  then show "BasePlacementGroupSpec_ApplyFlags parent FLAGS config_values flag_values = Inl e"
    by (simp add: BasePlacementGroupSpec_ApplyFlags_def)
next
  fix cv assume "parent config_values flag_values = Inr cv"
  then show "\<exists>c. BasePlacementGroupSpec_ApplyFlags parent FLAGS config_values flag_values = Inr c
            \<and> (\<forall>k. k \<noteq> ''placement_group_style'' \<longrightarrow> c k = cv k)
            \<and> (\<forall>F. flag_value (placement_group_style FLAGS) = Some F \<and> F \<noteq> [] \<longrightarrow>
                  c ''placement_group_style'' = Some (PyStr F))
            \<and> (flag_value (placement_group_style FLAGS) = None
                  \<or> flag_value (placement_group_style FLAGS) = Some [] \<longrightarrow>
                  c ''placement_group_style'' = cv ''placement_group_style'')"
    by (auto simp: BasePlacementGroupSpec_ApplyFlags_def split: option.splits)
qed

theorem ApplyFlags_parent_first_witness:
  "BasePlacementGroupSpec_ApplyFlags (ApplyFlags_raising (OtherException ''ValueError'' ''bad flag''))
      \<lparr>placement_group_style = \<lparr>flag_value = Some ''spread'', flag_present = 1\<rparr>\<rparr>
      [''placement_group_style'' \<mapsto> PyStr ''cluster'']
      \<lparr>placement_group_style = \<lparr>flag_value = Some ''spread'', flag_present = 1\<rparr>\<rparr>
    = Inl (OtherException ''ValueError'' ''bad flag'')
   \<and> BasePlacementGroupSpec_ApplyFlags (ApplyFlags_writing ''zone'' (PyStr ''us-central1-a''))
      \<lparr>placement_group_style = \<lparr>flag_value = Some ''spread'', flag_present = 1\<rparr>\<rparr>
      [''placement_group_style'' \<mapsto> PyStr ''cluster'']
      \<lparr>placement_group_style = \<lparr>flag_value = Some ''spread'', flag_present = 1\<rparr>\<rparr>
    = Inr [''placement_group_style'' \<mapsto> PyStr ''spread'', ''zone'' \<mapsto> PyStr ''us-central1-a'']
   \<and> (\<exists>c. BasePlacementGroupSpec_ApplyFlags
          (ApplyFlags_writing ''placement_group_style'' (PyStr ''none''))
      \<lparr>placement_group_style = \<lparr>flag_value = Some ''spread'', flag_present = 1\<rparr>\<rparr>
      [''zone'' \<mapsto> PyStr ''us-central1-a'']
      \<lparr>placement_group_style = \<lparr>flag_value = Some ''spread'', flag_present = 1\<rparr>\<rparr>
    = Inr c \<and> c ''zone'' = Some (PyStr ''us-central1-a'')
      \<and> c ''placement_group_style'' = Some (PyStr ''spread''))"
proof -
  let ?F = "\<lparr>placement_group_style = \<lparr>flag_value = Some ''spread'', flag_present = 1\<rparr>\<rparr>"
  let ?cfg = "[''placement_group_style'' \<mapsto> PyStr ''cluster'']"
  let ?zcfg = "[''zone'' \<mapsto> PyStr ''us-central1-a'']"
  let ?e = "OtherException ''ValueError'' ''bad flag''"
  have r: "ApplyFlags_raising ?e ?cfg ?F = Inl ?e"
    by (simp add: ApplyFlags_raising_def)
  have a: "BasePlacementGroupSpec_ApplyFlags (ApplyFlags_raising ?e) ?F ?cfg ?F = Inl ?e"
    using r ApplyFlags_parent_first [of "ApplyFlags_raising ?e" ?F ?cfg ?F]
    by blast
  have "BasePlacementGroupSpec_ApplyFlags (ApplyFlags_writing ''zone'' (PyStr ''us-central1-a''))
      ?F ?cfg ?F
    = ApplyFlags_cooperative (ApplyFlags_writing ''zone'' (PyStr ''us-central1-a'')) ?F ?cfg ?F"
    using ApplyFlags_parent_first [of "ApplyFlags_writing ''zone'' (PyStr ''us-central1-a'')" ?F ?cfg ?F]
    by blast
  then have b: "BasePlacementGroupSpec_ApplyFlags (ApplyFlags_writing ''zone'' (PyStr ''us-central1-a''))
      ?F ?cfg ?F
    = Inr [''placement_group_style'' \<mapsto> PyStr ''spread'', ''zone'' \<mapsto> PyStr ''us-central1-a'']"
    by (auto simp: ApplyFlags_cooperative_def ApplyFlags_writing_def
        placement_group_style_override_def fun_eq_iff)
  have w: "ApplyFlags_writing ''placement_group_style'' (PyStr ''none'') ?zcfg ?F
             = Inr (?zcfg(''placement_group_style'' \<mapsto> PyStr ''none''))"
    by (simp add: ApplyFlags_writing_def)
  have c: "\<exists>c. BasePlacementGroupSpec_ApplyFlags
          (ApplyFlags_writing ''placement_group_style'' (PyStr ''none'')) ?F ?zcfg ?F = Inr c
      \<and> c ''zone'' = Some (PyStr ''us-central1-a'')
      \<and> c ''placement_group_style'' = Some (PyStr ''spread'')"
  proof -
    from w ApplyFlags_parent_first
      [of "ApplyFlags_writing ''placement_group_style'' (PyStr ''none'')" ?F ?zcfg ?F]
    obtain c where c: "BasePlacementGroupSpec_ApplyFlags
          (ApplyFlags_writing ''placement_group_style'' (PyStr ''none'')) ?F ?zcfg ?F = Inr c"
        "\<forall>k. k \<noteq> ''placement_group_style'' \<longrightarrow>
           c k = (?zcfg(''placement_group_style'' \<mapsto> PyStr ''none'')) k"
        "\<forall>F. flag_value (placement_group_style ?F) = Some F \<and> F \<noteq> [] \<longrightarrow>
           c ''placement_group_style'' = Some (PyStr F)"
      by blast
    from c(2) have "c ''zone'' = Some (PyStr ''us-central1-a'')" by simp
    moreover from c(3) have "c ''placement_group_style'' = Some (PyStr ''spread'')" by simp
    ultimately show ?thesis using c(1) by blast
  qed
  from a b c show ?thesis by blast
qed

subsection \<open>\_GetOptionDecoderConstructions\<close>

lemma GetOptionDecoderConstructions_update:
  "BasePlacementGroupSpec_GetOptionDecoderConstructions super_result =
     AList.update ''zone'' (StringDecoder, [(''none_ok'', PyBool True)]) super_result"
  by (simp add: BasePlacementGroupSpec_GetOptionDecoderConstructions_def)

lemma keys_update: "fst ` set (AList.update k v d) = insert k (fst ` set d)"
  by (induction d) auto

text \<open>
  C4. \<^verbatim>\<open>_GetOptionDecoderConstructions\<close> returns the parent's dictionary with the entry
  \<^verbatim>\<open>'zone': (StringDecoder, {'none_ok': True})\<close>: that entry replaces an entry of the
  parent of the same name, every other entry of the parent is preserved, the keys are
  the parent's and \<^verbatim>\<open>zone\<close>, and no key is duplicated.
\<close>

theorem GetOptionDecoderConstructions_extends_parent:
  "map_of (BasePlacementGroupSpec_GetOptionDecoderConstructions super_result) ''zone''
      = Some (StringDecoder, [(''none_ok'', PyBool True)])
   \<and> (\<forall>k. k \<noteq> ''zone'' \<longrightarrow>
         map_of (BasePlacementGroupSpec_GetOptionDecoderConstructions super_result) k
           = map_of super_result k)
   \<and> fst ` set (BasePlacementGroupSpec_GetOptionDecoderConstructions super_result)
        = insert ''zone'' (fst ` set super_result)
   \<and> (distinct (map fst super_result) \<longrightarrow>
        distinct (map fst (BasePlacementGroupSpec_GetOptionDecoderConstructions super_result)))"
  unfolding GetOptionDecoderConstructions_update
proof (intro conjI allI impI)
  let ?zone = "(StringDecoder, [(''none_ok'', PyBool True)])"
  show "map_of (AList.update ''zone'' ?zone super_result) ''zone'' = Some ?zone"
    by (simp only: update_conv' fun_upd_same)
  show "map_of (AList.update ''zone'' ?zone super_result) k = map_of super_result k"
    if "k \<noteq> ''zone''" for k
    using that by (simp add: update_conv')
  show "fst ` set (AList.update ''zone'' ?zone super_result) = insert ''zone'' (fst ` set super_result)"
    by (rule keys_update)
  show "distinct (map fst (AList.update ''zone'' ?zone super_result))"
    if "distinct (map fst super_result)"
    using that by (rule distinct_update)
qed

theorem GetOptionDecoderConstructions_extends_parent_witness:
  "BasePlacementGroupSpec_GetOptionDecoderConstructions
     [(''zone'', (OtherDecoder ''IntDecoder'', [])), (''name'', (StringDecoder, []))]
   = [(''zone'', (StringDecoder, [(''none_ok'', PyBool True)])), (''name'', (StringDecoder, []))]
   \<and> map_of (BasePlacementGroupSpec_GetOptionDecoderConstructions
       [(''zone'', (OtherDecoder ''IntDecoder'', [])), (''name'', (StringDecoder, []))]) ''name''
     = Some (StringDecoder, [])
   \<and> distinct (map fst (BasePlacementGroupSpec_GetOptionDecoderConstructions
       [(''zone'', (OtherDecoder ''IntDecoder'', [])), (''name'', (StringDecoder, []))]))"
  using GetOptionDecoderConstructions_extends_parent
    [of "[(''zone'', (OtherDecoder ''IntDecoder'', [])), (''name'', (StringDecoder, []))]"]
  by (simp add: BasePlacementGroupSpec_GetOptionDecoderConstructions_def)

subsection \<open>The class registry\<close>

lemma set_registry_entries:
  "set (registry_entries classes) =
     {((base_type c, cloud), c) | c cloud. c \<in> set classes \<and> CLOUD c = Some cloud}"
  by (auto simp: registry_entries_def split: option.splits)

lemma Resolve_unregistered:
  assumes "\<not> (\<exists>c \<in> set classes. base_type c = base \<and> CLOUD c = Some cloud)"
  shows "Resolve classes base cloud = Inl (NotImplementedError base cloud)"
proof -
  have "(base, cloud) \<notin> fst ` set (registry_entries classes)"
    using assms by (auto simp: set_registry_entries)
  then have "map_of (registry_entries classes) (base, cloud) = None"
    by (simp add: map_of_eq_None_iff)
  then show ?thesis by (simp add: Resolve_def)
qed

lemma Resolve_registered:
  assumes "unique_registration classes" "c \<in> set classes" "base_type c = base" "CLOUD c = Some cloud"
  shows "Resolve classes base cloud = Inr c"
proof -
  have "((base, cloud), c) \<in> set (registry_entries classes)"
    using assms(2-4) by (auto simp: set_registry_entries)
  with assms(1) have "map_of (registry_entries classes) (base, cloud) = Some c"
    by (simp add: unique_registration_def)
  then show ?thesis by (simp add: Resolve_def)
qed

lemma example_unique: "unique_registration example_classes"
  by (simp add: unique_registration_def registry_entries_def example_classes_def)

text \<open>
  C3. For a cloud identifier that no registered class with the base's type tag declares
  in its \<^verbatim>\<open>CLOUD\<close> constant, \<^verbatim>\<open>GetPlacementGroupClass\<close> (and
  \<^verbatim>\<open>GetPlacementGroupSpecClass\<close>) fails with a \<^verbatim>\<open>NotImplementedError\<close>; for a registered
  one, under the registry's uniqueness invariant, the result is exactly the class that
  declared that cloud identifier.
\<close>

theorem GetPlacementGroupClass_resolution:
  "(\<not> (\<exists>c \<in> set resource_classes. base_type c = ''BasePlacementGroup'' \<and> CLOUD c = Some cloud) \<longrightarrow>
      GetPlacementGroupClass resource_classes cloud
        = Inl (NotImplementedError ''BasePlacementGroup'' cloud))
   \<and> (\<not> (\<exists>c \<in> set spec_classes. base_type c = ''BasePlacementGroupSpec'' \<and> CLOUD c = Some cloud) \<longrightarrow>
      GetPlacementGroupSpecClass spec_classes cloud
        = Inl (NotImplementedError ''BasePlacementGroupSpec'' cloud))
   \<and> (\<forall>c. unique_registration resource_classes \<and> c \<in> set resource_classes
          \<and> base_type c = ''BasePlacementGroup'' \<and> CLOUD c = Some cloud \<longrightarrow>
      GetPlacementGroupClass resource_classes cloud = Inr c)
   \<and> (\<forall>c. unique_registration spec_classes \<and> c \<in> set spec_classes
          \<and> base_type c = ''BasePlacementGroupSpec'' \<and> CLOUD c = Some cloud \<longrightarrow>
      GetPlacementGroupSpecClass spec_classes cloud = Inr c)"
  unfolding GetPlacementGroupClass_def GetPlacementGroupSpecClass_def
  using Resolve_unregistered Resolve_registered by blast

theorem GetPlacementGroupClass_resolution_witness:
  "GetPlacementGroupClass example_classes ''NONEXISTENT-CLOUD''
      = Inl (NotImplementedError ''BasePlacementGroup'' ''NONEXISTENT-CLOUD'')
   \<and> GetPlacementGroupSpecClass example_classes ''AWS''
      = Inl (NotImplementedError ''BasePlacementGroupSpec'' ''AWS'')
   \<and> GetPlacementGroupClass example_classes ''GCP''
      = Inr \<lparr>class_name = ''GcePlacementGroup'', base_type = ''BasePlacementGroup'', CLOUD = Some ''GCP''\<rparr>
   \<and> GetPlacementGroupSpecClass example_classes ''GCP''
      = Inr \<lparr>class_name = ''GcePlacementGroupSpec'', base_type = ''BasePlacementGroupSpec'',
              CLOUD = Some ''GCP''\<rparr>"
proof -
  have s: "set example_classes =
     {\<lparr>class_name = ''BasePlacementGroup'', base_type = ''BasePlacementGroup'', CLOUD = None\<rparr>,
      \<lparr>class_name = ''GcePlacementGroup'', base_type = ''BasePlacementGroup'', CLOUD = Some ''GCP''\<rparr>,
      \<lparr>class_name = ''AwsPlacementGroup'', base_type = ''BasePlacementGroup'', CLOUD = Some ''AWS''\<rparr>,
      \<lparr>class_name = ''GcePlacementGroupSpec'', base_type = ''BasePlacementGroupSpec'',
        CLOUD = Some ''GCP''\<rparr>}"
    by (simp add: example_classes_def)
  have a: "GetPlacementGroupClass example_classes ''NONEXISTENT-CLOUD''
      = Inl (NotImplementedError ''BasePlacementGroup'' ''NONEXISTENT-CLOUD'')"
    using GetPlacementGroupClass_resolution
      [of example_classes "''NONEXISTENT-CLOUD''" example_classes]
    by (simp add: s)
  have b: "GetPlacementGroupSpecClass example_classes ''AWS''
      = Inl (NotImplementedError ''BasePlacementGroupSpec'' ''AWS'')"
    using GetPlacementGroupClass_resolution [of example_classes "''AWS''" example_classes]
    by (simp add: s)
  have c: "GetPlacementGroupClass example_classes ''GCP''
      = Inr \<lparr>class_name = ''GcePlacementGroup'', base_type = ''BasePlacementGroup'', CLOUD = Some ''GCP''\<rparr>"
    using example_unique GetPlacementGroupClass_resolution [of example_classes "''GCP''" example_classes]
    by (simp add: s)
  have d: "GetPlacementGroupSpecClass example_classes ''GCP''
      = Inr \<lparr>class_name = ''GcePlacementGroupSpec'', base_type = ''BasePlacementGroupSpec'',
              CLOUD = Some ''GCP''\<rparr>"
    using example_unique GetPlacementGroupClass_resolution [of example_classes "''GCP''" example_classes]
    by (simp add: s)
  from a b c d show ?thesis by blast
qed

subsection \<open>BasePlacementGroup\<close>

lemma getattr_upd_same: "getattr (h(a \<mapsto> ob)) a name =
    (case ob name of None \<Rightarrow> Inl (AttributeError name) | Some v \<Rightarrow> Inr v)"
  by (simp add: getattr_def attrs_def)

lemma getattr_upd_other: "b \<noteq> a \<Longrightarrow> getattr (h(a \<mapsto> ob)) b name = getattr h b name"
  by (simp add: getattr_def attrs_def)

text \<open>
  C5. Constructing \<^verbatim>\<open>BasePlacementGroup(s)\<close> from an instance \<open>s\<close> of
  \<^verbatim>\<open>BasePlacementGroupSpec\<close> succeeds when the parent's initialiser does, and copies
  \<open>s.zone\<close> into the new object's \<^verbatim>\<open>zone\<close>. No attribute of the new object refers to
  \<open>s\<close> (the parent's initialiser, which is not handed \<open>s\<close>, storing none), so changing or
  disposing of \<open>s\<close> in the store leaves the new object as it is; and the construction
  changes no other object.
\<close>

theorem BasePlacementGroup_copies_zone:
  assumes fresh: "h self = None"
    and spec: "h placement_group_spec = Some s" "is_BasePlacementGroupSpec s"
    and parent: "super_init Map.empty = Inr ob" "PyRef placement_group_spec \<notin> ran ob"
  shows "\<exists>h' z. BasePlacementGroup_new super_init h self placement_group_spec = Inr h'
           \<and> s ''zone'' = Some z
           \<and> getattr h' self ''zone'' = Inr z
           \<and> (\<forall>name. getattr h' self name \<noteq> Inr (PyRef placement_group_spec))
           \<and> (\<forall>x. (h'(placement_group_spec := x)) self = h' self)
           \<and> (\<forall>a. a \<noteq> self \<longrightarrow> h' a = h a)"
proof -
  from fresh spec(1) have ne: "placement_group_spec \<noteq> self" by auto
  from spec(2) obtain z where z: "s ''zone'' = Some z" "z = PyNone \<or> (\<exists>str. z = PyStr str)"
    by (auto simp: is_BasePlacementGroupSpec_def split: option.splits pyval.splits)
  let ?h' = "h(self \<mapsto> ob(''zone'' \<mapsto> z))"
  have g: "getattr (h(self \<mapsto> Map.empty, self \<mapsto> ob)) placement_group_spec ''zone'' = Inr z"
    using ne spec(1) z(1) by (simp add: getattr_def attrs_def)
  have new: "BasePlacementGroup_new super_init h self placement_group_spec = Inr ?h'"
    using parent(1) g
    by (simp add: BasePlacementGroup_new_def BasePlacementGroup_init_def attrs_def)
  have zone: "getattr ?h' self ''zone'' = Inr z"
    by (simp add: getattr_upd_same)
  have noref: "getattr ?h' self name \<noteq> Inr (PyRef placement_group_spec)" for name
  proof (cases "name = ''zone''")
    case True
    with z(2) show ?thesis by (auto simp: getattr_upd_same)
  next
    case False
    show ?thesis
    proof
      assume "getattr ?h' self name = Inr (PyRef placement_group_spec)"
      with False have "ob name = Some (PyRef placement_group_spec)"
        by (simp add: getattr_upd_same split: option.splits)
      then have "PyRef placement_group_spec \<in> ran ob" by (rule ranI)
      with parent(2) show False by contradiction
    qed
  qed
  have frame: "(?h'(placement_group_spec := x)) self = ?h' self" for x
    using ne by simp
  have other: "a \<noteq> self \<longrightarrow> ?h' a = h a" for a by simp
  from new z(1) zone noref frame other show ?thesis by blast
qed

theorem BasePlacementGroup_copies_zone_witness:
  "BasePlacementGroup_new BaseResource_init_example
      [0 \<mapsto> [''zone'' \<mapsto> PyStr ''us-central1-a'']] 1 0
    = Inr [0 \<mapsto> [''zone'' \<mapsto> PyStr ''us-central1-a''],
           1 \<mapsto> [''created'' \<mapsto> PyBool False, ''deleted'' \<mapsto> PyBool False,
                 ''zone'' \<mapsto> PyStr ''us-central1-a'']]
   \<and> (\<exists>h'. BasePlacementGroup_new BaseResource_init_example
      [0 \<mapsto> [''zone'' \<mapsto> PyStr ''us-central1-a'']] 1 0 = Inr h'
      \<and> getattr h' 1 ''zone'' = Inr (PyStr ''us-central1-a'')
      \<and> getattr h' 1 ''created'' \<noteq> Inr (PyRef 0)
      \<and> (h'(0 := None)) 1 = h' 1)"
proof -
  let ?s = "[''zone'' \<mapsto> PyStr ''us-central1-a'']"
  let ?h = "[0 \<mapsto> ?s]"
  let ?ob = "[''created'' \<mapsto> PyBool False, ''deleted'' \<mapsto> PyBool False]"
  have 1: "?h (1::nat) = None" by simp
  have 2: "?h (0::nat) = Some ?s" by simp
  have 3: "is_BasePlacementGroupSpec ?s" by (simp add: is_BasePlacementGroupSpec_def)
  have 4: "BaseResource_init_example Map.empty = Inr ?ob"
    by (simp add: BaseResource_init_example_def)
  have 5: "PyRef 0 \<notin> ran ?ob" by (auto simp: ran_def)
  from BasePlacementGroup_copies_zone [where h = ?h and self = 1 and placement_group_spec = 0
      and s = ?s and super_init = BaseResource_init_example and ob = ?ob, OF 1 2 3 4 5]
  obtain h' z where h': "BasePlacementGroup_new BaseResource_init_example ?h 1 0 = Inr h'"
      "?s ''zone'' = Some z" "getattr h' 1 ''zone'' = Inr z"
      "\<forall>name. getattr h' 1 name \<noteq> Inr (PyRef 0)"
      "\<forall>x. (h'(0 := x)) 1 = h' 1"
    by blast
  from h'(2) have z: "z = PyStr ''us-central1-a''" by simp
  have e: "BasePlacementGroup_new BaseResource_init_example ?h 1 0
    = Inr [0 \<mapsto> ?s, 1 \<mapsto> [''created'' \<mapsto> PyBool False, ''deleted'' \<mapsto> PyBool False,
                 ''zone'' \<mapsto> PyStr ''us-central1-a'']]"
    by (simp add: BasePlacementGroup_new_def BasePlacementGroup_init_def attrs_def getattr_def
        BaseResource_init_example_def)
  from h' z e show ?thesis by blast
qed

subsection \<open>Constructing a spec without a zone\<close>


lemma ApplyFlags_returns:
  assumes "parent config_values flag_values = Inr cv"
  shows "\<exists>cv'. BasePlacementGroupSpec_ApplyFlags parent FLAGS config_values flag_values = Inr cv'"
  using assms by (auto simp: BasePlacementGroupSpec_ApplyFlags_def split: option.splits)


lemma map_of_decoded:
  "map_of rs option = Some (Inr v) \<Longrightarrow> map_of (decoded rs) option = Some v"
  by (induction rs rule: decoded.induct) (auto split: if_splits)

lemma map_of_decode_options:
  "map_of (decode_options other decoders cv component) option =
     map_option (\<lambda>dc. Decode other dc (cv option) (component @ ''.'' @ option))
       (map_of decoders option)"
  by (induction decoders) (auto simp: decode_options_def)




lemma FromConfig_cases:
  assumes "BasePlacementGroupSpec_ApplyFlags super_ApplyFlags FLAGS config_values flag_values = Inr cv'"
  shows "FromConfig super_ApplyFlags super_decoders other FLAGS component config_values flag_values =
     (if failures (decode_options other
            (BasePlacementGroupSpec_GetOptionDecoderConstructions super_decoders) cv' component) \<noteq> []
      then Inl (ConfigValidationError (failures (decode_options other
            (BasePlacementGroupSpec_GetOptionDecoderConstructions super_decoders) cv' component)))
      else Inr (map_of (decoded (decode_options other
            (BasePlacementGroupSpec_GetOptionDecoderConstructions super_decoders) cv' component))))"
  using assms by (simp add: FromConfig_def)




subsection \<open>Flag precedence in the configuration entry and in the spec\<close>

lemma map_of_decoded_None:
  "map_of rs option = None \<Longrightarrow> map_of (decoded rs) option = None"
  by (induction rs rule: decoded.induct) (auto split: if_splits)

lemma FromConfig_field:
  assumes "BasePlacementGroupSpec_ApplyFlags super_ApplyFlags FLAGS config_values flag_values = Inr cv'"
    and "FromConfig super_ApplyFlags super_decoders other FLAGS component config_values flag_values
           = Inr spec"
    and "option \<noteq> ''zone''"
  shows "(map_of super_decoders option = None \<longrightarrow> spec option = None)
       \<and> (\<forall>dc v. map_of super_decoders option = Some dc
              \<and> Decode other dc (cv' option) (component @ ''.'' @ option) = Inr v
            \<longrightarrow> spec option = Some v)"
proof -
  let ?decs = "BasePlacementGroupSpec_GetOptionDecoderConstructions super_decoders"
  let ?rs = "decode_options other ?decs cv' component"
  from assms(1,2) have spec: "spec = map_of (decoded ?rs)"
    by (simp add: FromConfig_cases split: if_splits)
  have d: "map_of ?decs option = map_of super_decoders option"
    unfolding GetOptionDecoderConstructions_update using assms(3) by (simp add: update_conv')
  have rs: "map_of ?rs option =
      map_option (\<lambda>dc. Decode other dc (cv' option) (component @ ''.'' @ option))
        (map_of super_decoders option)"
    by (simp only: map_of_decode_options d)
  show ?thesis
  proof (intro conjI impI allI)
    assume "map_of super_decoders option = None"
    with rs have "map_of ?rs option = None" by simp
    then show "spec option = None" unfolding spec by (rule map_of_decoded_None)
  next
    fix dc v
    assume "map_of super_decoders option = Some dc
              \<and> Decode other dc (cv' option) (component @ ''.'' @ option) = Inr v"
    with rs have "map_of ?rs option = Some (Inr v)" by simp
    then show "spec option = Some v" unfolding spec by (rule map_of_decoded)
  qed
qed

text \<open>
  C1, as amended. Let the parent's \<^verbatim>\<open>_ApplyFlags\<close> return normally, leaving the
  dictionary \<open>cv\<close>. When the global \<^verbatim>\<open>FLAGS.placement_group_style\<close> holds a non-empty
  string \<open>F\<close>, the resulting entry for \<^verbatim>\<open>placement_group_style\<close> is \<open>F\<close>, whatever the
  configuration held. When it holds \<^verbatim>\<open>None\<close> or the empty string, the entry is the one
  the parent left: the configuration value when the parent does not write it. Neither
  the flag's \<open>flag_present\<close> count nor the \<open>flag_values\<close> argument has a part in it.
  The spec constructed from that dictionary has a \<^verbatim>\<open>placement_group_style\<close> field only
  when the decoder constructions the class inherits declare a decoder for it
  (\<^verbatim>\<open>BasePlacementGroupSpec\<close> itself adds only \<^verbatim>\<open>zone\<close>); with a \<^verbatim>\<open>StringDecoder\<close> declared
  there, the field of a successfully constructed spec is \<open>F\<close> in the first case and the
  parent's string entry in the second.
\<close>

theorem ApplyFlags_flag_precedence:
  assumes parent: "super_ApplyFlags config_values flag_values = Inr cv"
  shows "(\<forall>F. flag_value (placement_group_style FLAGS) = Some F \<and> F \<noteq> [] \<longrightarrow>
            (\<exists>c. BasePlacementGroupSpec_ApplyFlags super_ApplyFlags FLAGS config_values flag_values = Inr c
                 \<and> c ''placement_group_style'' = Some (PyStr F))
          \<and> (\<forall>spec kwargs.
                FromConfig super_ApplyFlags super_decoders other FLAGS component config_values flag_values
                  = Inr spec
                \<and> map_of super_decoders ''placement_group_style'' = Some (StringDecoder, kwargs)
              \<longrightarrow> spec ''placement_group_style'' = Some (PyStr F)))
       \<and> (flag_value (placement_group_style FLAGS) = None \<or>
           flag_value (placement_group_style FLAGS) = Some [] \<longrightarrow>
            (\<exists>c. BasePlacementGroupSpec_ApplyFlags super_ApplyFlags FLAGS config_values flag_values = Inr c
                 \<and> c ''placement_group_style'' = cv ''placement_group_style'')
          \<and> (\<forall>spec kwargs V.
                FromConfig super_ApplyFlags super_decoders other FLAGS component config_values flag_values
                  = Inr spec
                \<and> map_of super_decoders ''placement_group_style'' = Some (StringDecoder, kwargs)
                \<and> cv ''placement_group_style'' = Some (PyStr V)
              \<longrightarrow> spec ''placement_group_style'' = Some (PyStr V)))
       \<and> (\<forall>spec.
              FromConfig super_ApplyFlags super_decoders other FLAGS component config_values flag_values
                = Inr spec
              \<and> map_of super_decoders ''placement_group_style'' = None
            \<longrightarrow> spec ''placement_group_style'' = None)"
proof -
  let ?k = "''placement_group_style''"
  let ?name = "component @ ''.'' @ ?k"
  from parent
  have "\<exists>cv'. BasePlacementGroupSpec_ApplyFlags super_ApplyFlags FLAGS config_values flag_values = Inr cv'"
    by (rule ApplyFlags_returns)
  then obtain cv'
    where cv': "BasePlacementGroupSpec_ApplyFlags super_ApplyFlags FLAGS config_values flag_values = Inr cv'"
    by blast
  have set: "cv' ?k = Some (PyStr F)" if "flag_value (placement_group_style FLAGS) = Some F" "F \<noteq> []" for F
    using cv' parent that by (auto simp: BasePlacementGroupSpec_ApplyFlags_def)
  have unset: "cv' ?k = cv ?k"
    if "flag_value (placement_group_style FLAGS) = None \<or> flag_value (placement_group_style FLAGS) = Some []"
    using cv' parent that by (auto simp: BasePlacementGroupSpec_ApplyFlags_def)
  have nz: "?k \<noteq> ''zone''" by simp
  have str: "Decode other (StringDecoder, kwargs) (Some (PyStr s)) name = Inr (PyStr s)" for kwargs s name
    by simp
  have field: "spec ?k = Some (PyStr s)"
    if "FromConfig super_ApplyFlags super_decoders other FLAGS component config_values flag_values = Inr spec"
      "map_of super_decoders ?k = Some (StringDecoder, kwargs)" "cv' ?k = Some (PyStr s)" for spec kwargs s
  proof -
    have "Decode other (StringDecoder, kwargs) (cv' ?k) ?name = Inr (PyStr s)"
      using that(3) str by simp
    with FromConfig_field [OF cv' that(1) nz] that(2) show ?thesis by blast
  qed
  have nofield: "spec ?k = None"
    if "FromConfig super_ApplyFlags super_decoders other FLAGS component config_values flag_values = Inr spec"
      "map_of super_decoders ?k = None" for spec
    using FromConfig_field [OF cv' that(1) nz] that(2) by blast
  show ?thesis
  proof (intro conjI allI impI)
    fix F assume "flag_value (placement_group_style FLAGS) = Some F \<and> F \<noteq> []"
    with set cv'
    show "\<exists>c. BasePlacementGroupSpec_ApplyFlags super_ApplyFlags FLAGS config_values flag_values = Inr c
                 \<and> c ?k = Some (PyStr F)" by blast
  next
    fix F spec kwargs
    assume "flag_value (placement_group_style FLAGS) = Some F \<and> F \<noteq> []"
      and "FromConfig super_ApplyFlags super_decoders other FLAGS component config_values flag_values
                  = Inr spec
                \<and> map_of super_decoders ?k = Some (StringDecoder, kwargs)"
    with set field show "spec ?k = Some (PyStr F)" by blast
  next
    assume "flag_value (placement_group_style FLAGS) = None \<or>
           flag_value (placement_group_style FLAGS) = Some []"
    with unset cv'
    show "\<exists>c. BasePlacementGroupSpec_ApplyFlags super_ApplyFlags FLAGS config_values flag_values = Inr c
                 \<and> c ?k = cv ?k" by blast
  next
    fix spec kwargs V
    assume "flag_value (placement_group_style FLAGS) = None \<or>
           flag_value (placement_group_style FLAGS) = Some []"
      and "FromConfig super_ApplyFlags super_decoders other FLAGS component config_values flag_values
                  = Inr spec
                \<and> map_of super_decoders ?k = Some (StringDecoder, kwargs)
                \<and> cv ?k = Some (PyStr V)"
    with unset field show "spec ?k = Some (PyStr V)" by metis
  next
    fix spec
    assume "FromConfig super_ApplyFlags super_decoders other FLAGS component config_values flag_values
                = Inr spec
              \<and> map_of super_decoders ?k = None"
    with nofield show "spec ?k = None" by blast
  qed
qed

theorem ApplyFlags_flag_precedence_witness:
  "(\<exists>c. BasePlacementGroupSpec_ApplyFlags ApplyFlags_unchanged
      \<lparr>placement_group_style = \<lparr>flag_value = Some ''spread'', flag_present = 1\<rparr>\<rparr>
      [''placement_group_style'' \<mapsto> PyStr ''cluster'']
      \<lparr>placement_group_style = \<lparr>flag_value = Some ''spread'', flag_present = 1\<rparr>\<rparr> = Inr c
      \<and> c ''placement_group_style'' = Some (PyStr ''spread''))
   \<and> (\<exists>spec. FromConfig ApplyFlags_unchanged [(''placement_group_style'', (StringDecoder, []))]
      decode_unknown
      \<lparr>placement_group_style = \<lparr>flag_value = Some ''spread'', flag_present = 1\<rparr>\<rparr>
      ''placement_group'' [''placement_group_style'' \<mapsto> PyStr ''cluster'']
      \<lparr>placement_group_style = \<lparr>flag_value = Some ''spread'', flag_present = 1\<rparr>\<rparr> = Inr spec
      \<and> spec ''placement_group_style'' = Some (PyStr ''spread''))
   \<and> (\<exists>c. BasePlacementGroupSpec_ApplyFlags ApplyFlags_unchanged
      \<lparr>placement_group_style = \<lparr>flag_value = None, flag_present = 0\<rparr>\<rparr>
      [''placement_group_style'' \<mapsto> PyStr ''cluster'']
      \<lparr>placement_group_style = \<lparr>flag_value = None, flag_present = 0\<rparr>\<rparr> = Inr c
      \<and> c ''placement_group_style'' = Some (PyStr ''cluster''))
   \<and> (\<exists>spec. FromConfig ApplyFlags_unchanged [(''placement_group_style'', (StringDecoder, []))]
      decode_unknown
      \<lparr>placement_group_style = \<lparr>flag_value = None, flag_present = 0\<rparr>\<rparr>
      ''placement_group'' [''placement_group_style'' \<mapsto> PyStr ''cluster'']
      \<lparr>placement_group_style = \<lparr>flag_value = None, flag_present = 0\<rparr>\<rparr> = Inr spec
      \<and> spec ''placement_group_style'' = Some (PyStr ''cluster''))
   \<and> (\<exists>spec. FromConfig ApplyFlags_unchanged [] decode_unknown
      \<lparr>placement_group_style = \<lparr>flag_value = Some ''spread'', flag_present = 1\<rparr>\<rparr>
      ''placement_group'' [''placement_group_style'' \<mapsto> PyStr ''cluster'']
      \<lparr>placement_group_style = \<lparr>flag_value = Some ''spread'', flag_present = 1\<rparr>\<rparr> = Inr spec
      \<and> spec ''placement_group_style'' = None)"
proof -
  let ?cfg = "[''placement_group_style'' \<mapsto> PyStr ''cluster'']"
  let ?set = "\<lparr>placement_group_style = \<lparr>flag_value = Some ''spread'', flag_present = 1\<rparr>\<rparr>"
  let ?unset = "\<lparr>placement_group_style = \<lparr>flag_value = None, flag_present = 0\<rparr>\<rparr>"
  let ?decs = "[(''placement_group_style'', (StringDecoder, []))]"
  note defs = FromConfig_def BasePlacementGroupSpec_ApplyFlags_def ApplyFlags_unchanged_def
    BasePlacementGroupSpec_GetOptionDecoderConstructions_def decode_options_def none_ok_def
  have p: "ApplyFlags_unchanged ?cfg fv = Inr ?cfg" for fv :: FlagValues
    by (simp add: ApplyFlags_unchanged_def)
  have d: "map_of ?decs ''placement_group_style'' = Some (StringDecoder, [])" by simp
  have n: "map_of ([] :: (string \<times> decoder_construction) list) ''placement_group_style'' = None"
    by simp
  have v: "?cfg ''placement_group_style'' = Some (PyStr ''cluster'')" by simp
  have s1: "\<exists>spec. FromConfig ApplyFlags_unchanged ?decs decode_unknown ?set ''placement_group''
      ?cfg ?set = Inr spec"
    by (simp add: defs)
  have s2: "\<exists>spec. FromConfig ApplyFlags_unchanged ?decs decode_unknown ?unset ''placement_group''
      ?cfg ?unset = Inr spec"
    by (simp add: defs)
  have s3: "\<exists>spec. FromConfig ApplyFlags_unchanged [] decode_unknown ?set ''placement_group''
      ?cfg ?set = Inr spec"
    by (simp add: defs)
  note t1 = ApplyFlags_flag_precedence [where super_ApplyFlags = ApplyFlags_unchanged
        and config_values = ?cfg and flag_values = ?set and cv = ?cfg and FLAGS = ?set
        and super_decoders = ?decs and other = decode_unknown
        and component = "''placement_group''", OF p]
  note t2 = ApplyFlags_flag_precedence [where super_ApplyFlags = ApplyFlags_unchanged
        and config_values = ?cfg and flag_values = ?unset and cv = ?cfg and FLAGS = ?unset
        and super_decoders = ?decs and other = decode_unknown
        and component = "''placement_group''", OF p]
  note t3 = ApplyFlags_flag_precedence [where super_ApplyFlags = ApplyFlags_unchanged
        and config_values = ?cfg and flag_values = ?set and cv = ?cfg and FLAGS = ?set
        and super_decoders = "[]" and other = decode_unknown
        and component = "''placement_group''", OF p]
  have a: "\<exists>c. BasePlacementGroupSpec_ApplyFlags ApplyFlags_unchanged ?set ?cfg ?set = Inr c
      \<and> c ''placement_group_style'' = Some (PyStr ''spread'')"
    using t1 by simp
  have a': "\<exists>spec. FromConfig ApplyFlags_unchanged ?decs decode_unknown ?set ''placement_group''
      ?cfg ?set = Inr spec \<and> spec ''placement_group_style'' = Some (PyStr ''spread'')"
  proof -
    from s1 obtain spec where spec: "FromConfig ApplyFlags_unchanged ?decs decode_unknown ?set
        ''placement_group'' ?cfg ?set = Inr spec" by blast
    have "flag_value (placement_group_style ?set) = Some ''spread'' \<and> ''spread'' \<noteq> []" by simp
    with t1 spec d have "spec ''placement_group_style'' = Some (PyStr ''spread'')" by blast
    with spec show ?thesis by blast
  qed
  have b: "\<exists>c. BasePlacementGroupSpec_ApplyFlags ApplyFlags_unchanged ?unset ?cfg ?unset = Inr c
      \<and> c ''placement_group_style'' = Some (PyStr ''cluster'')"
    using t2 by simp
  have b': "\<exists>spec. FromConfig ApplyFlags_unchanged ?decs decode_unknown ?unset ''placement_group''
      ?cfg ?unset = Inr spec \<and> spec ''placement_group_style'' = Some (PyStr ''cluster'')"
  proof -
    from s2 obtain spec where spec: "FromConfig ApplyFlags_unchanged ?decs decode_unknown ?unset
        ''placement_group'' ?cfg ?unset = Inr spec" by blast
    have "flag_value (placement_group_style ?unset) = None" by simp
    with t2 spec d v have "spec ''placement_group_style'' = Some (PyStr ''cluster'')" by blast
    with spec show ?thesis by blast
  qed
  have c: "\<exists>spec. FromConfig ApplyFlags_unchanged [] decode_unknown ?set ''placement_group''
      ?cfg ?set = Inr spec \<and> spec ''placement_group_style'' = None"
  proof -
    from s3 obtain spec where spec: "FromConfig ApplyFlags_unchanged [] decode_unknown ?set
        ''placement_group'' ?cfg ?set = Inr spec" by blast
    with t3 n have "spec ''placement_group_style'' = None" by blast
    with spec show ?thesis by blast
  qed
  from a a' b b' c show ?thesis by blast
qed

text \<open>
  The claim as first stated fails twice. A flag explicitly set to the empty string
  (\<^verbatim>\<open>--placement_group_style=\<close>) does not override: the entry keeps the configuration
  value. And with the flag set to \<^verbatim>\<open>spread\<close>, the spec of a class whose inherited decoder
  constructions declare nothing for \<^verbatim>\<open>placement_group_style\<close> has no such field: it
  holds \<^verbatim>\<open>zone\<close> alone.
\<close>

theorem ApplyFlags_explicit_empty_flag_counterexample:
  "0 < flag_present \<lparr>flag_value = Some [], flag_present = 1\<rparr>
   \<and> BasePlacementGroupSpec_ApplyFlags ApplyFlags_unchanged
        \<lparr>placement_group_style = \<lparr>flag_value = Some [], flag_present = 1\<rparr>\<rparr>
        [''placement_group_style'' \<mapsto> PyStr ''cluster'']
        \<lparr>placement_group_style = \<lparr>flag_value = Some [], flag_present = 1\<rparr>\<rparr>
      = Inr [''placement_group_style'' \<mapsto> PyStr ''cluster'']
   \<and> [''placement_group_style'' \<mapsto> PyStr ''cluster''] ''placement_group_style''
        \<noteq> Some (PyStr [])
   \<and> FromConfig ApplyFlags_unchanged [] decode_unknown
        \<lparr>placement_group_style = \<lparr>flag_value = Some ''spread'', flag_present = 1\<rparr>\<rparr>
        ''placement_group'' [''placement_group_style'' \<mapsto> PyStr ''cluster'']
        \<lparr>placement_group_style = \<lparr>flag_value = Some ''spread'', flag_present = 1\<rparr>\<rparr>
      = Inr [''zone'' \<mapsto> PyNone]
   \<and> [''zone'' \<mapsto> PyNone] ''placement_group_style'' \<noteq> Some (PyStr ''spread'')"
  by (simp add: FromConfig_def BasePlacementGroupSpec_ApplyFlags_def ApplyFlags_unchanged_def
      BasePlacementGroupSpec_GetOptionDecoderConstructions_def decode_options_def none_ok_def)

end
